theory Spec2Isabelle
  imports Main "HOL-Library.Sublist"
begin

section \<open>Configuration values\<close>

text \<open>
  The repository consists of two configuration modules: \<^verbatim>\<open>jest.config.ts\<close> (the test
  runner) and the flat ESLint configuration (the linter). Both are object literals; they
  are embedded here as the values the source writes down. A JavaScript value that occurs
  in them is a string, a number, a boolean, an array or an object literal (whose keys are
  kept in source order).
\<close>

datatype jsval =
    JStr string
  | JNum int
  | JBool bool
  | JArr "jsval list"
  | JObj "(string \<times> jsval) list"

text \<open>
  Subject strings (file paths, module specifiers) are JavaScript strings: sequences of
  UTF-16 code units, here natural numbers. The literals of the configuration are ASCII
  and are injected with \<open>js\<close>.
\<close>

type_synonym jsstring = "nat list"

definition js :: "string \<Rightarrow> jsstring" where
  "js s = map of_char s"

text \<open>The backslash cannot be written inside a string literal.\<close>

definition backslash :: char where
  "backslash = CHR 0x5C"

section \<open>The test-runner configuration (\<^verbatim>\<open>src/jest.config.ts\<close>)\<close>

record jest_config =
  testEnvironment :: string
  setupFilesAfterEnv :: "string list"
  moduleNameMapper :: "(string \<times> string) list"
  transform :: "(string \<times> string) list"
  testPathIgnorePatterns :: "string list"
  testMatch :: "string list"

text \<open>
  \<^verbatim>\<open>const customJestConfig = { ... }\<close>, the object the module hands to the preset
  wrapper \<^verbatim>\<open>createJestConfig\<close> of the framework (which is not part of the repository).
  The key of \<open>transform\<close> is written \<^verbatim>\<open>'^.+\\.(ts|tsx)$'\<close> in the source; the JavaScript
  string it denotes has a single backslash. The token \<^verbatim>\<open><rootDir>\<close> is kept as the source
  writes it; the test runner puts the project root in its place.
\<close>

definition customJestConfig :: jest_config where
  "customJestConfig = \<lparr>
     testEnvironment = ''jest-environment-jsdom'',
     setupFilesAfterEnv = [''<rootDir>/jest.setup.ts''],
     moduleNameMapper = [(''^@/(.*)$'', ''<rootDir>/src/$1'')],
     transform = [(''^.+'' @ backslash # ''.(ts|tsx)$'', ''ts-jest'')],
     testPathIgnorePatterns =
       [''<rootDir>/.next/'',
        ''<rootDir>/node_modules/'',
        ''<rootDir>/tests/''],
     testMatch =
       [''<rootDir>/src/**/__tests__/**/*.{js,jsx,ts,tsx}'',
        ''<rootDir>/src/**/*.{spec,test}.{js,jsx,ts,tsx}'']
   \<rparr>"

section \<open>The lint configuration (flat ESLint config)\<close>

text \<open>
  The modules the configuration imports, by their module specifier. The local binding
  of \<^verbatim>\<open>@next/eslint-plugin-next\<close> is \<^verbatim>\<open>next\<close> in the source.
\<close>

type_synonym module = string

definition js_module :: module where "js_module = ''@eslint/js''"
definition typescript :: module where "typescript = ''typescript-eslint''"
definition react :: module where "react = ''eslint-plugin-react''"
definition reactHooks :: module where "reactHooks = ''eslint-plugin-react-hooks''"
definition jsxA11y :: module where "jsxA11y = ''eslint-plugin-jsx-a11y''"
definition importPlugin :: module where "importPlugin = ''eslint-plugin-import''"
definition next_plugin :: module where "next_plugin = ''@next/eslint-plugin-next''"
definition prettier :: module where "prettier = ''eslint-plugin-prettier''"

text \<open>
  A config object of the array. A key the source leaves out is the empty list.
\<close>

record config_object =
  plugins :: "(string \<times> module) list"
  files :: "string list"
  languageOptions :: "(string \<times> jsval) list"
  settings :: "(string \<times> jsval) list"
  rules :: "(string \<times> jsval) list"
  ignores :: "string list"

definition empty_object :: config_object where
  "empty_object = \<lparr>plugins = [], files = [], languageOptions = [], settings = [],
     rules = [], ignores = []\<rparr>"

text \<open>
  An argument of \<^verbatim>\<open>typescript.config(...)\<close>: a ready-made config of an imported
  module (\<^verbatim>\<open>js.configs.recommended\<close>), a spread of a ready-made config array
  (\<^verbatim>\<open>...typescript.configs.recommended\<close>), or an object literal.
\<close>

datatype config_arg =
    Shared module string
  | Spread module string
  | Object config_object

definition plugins_object :: config_object where
  "plugins_object = empty_object\<lparr>plugins :=
     [(''react'', react),
      (''react-hooks'', reactHooks),
      (''jsx-a11y'', jsxA11y),
      (''import'', importPlugin),
      (''@next/next'', next_plugin),
      (''prettier'', prettier)]\<rparr>"

definition import_order_options :: jsval where
  "import_order_options = JObj
     [(''groups'', JArr [JStr ''builtin'', JStr ''external'', JStr ''internal'',
         JArr [JStr ''parent'', JStr ''sibling''], JStr ''index'', JStr ''object'',
         JStr ''type'']),
      (''newlines-between'', JStr ''always''),
      (''pathGroups'', JArr
         [JObj [(''pattern'', JStr ''react''), (''group'', JStr ''external''),
                (''position'', JStr ''before'')],
          JObj [(''pattern'', JStr ''next/**''), (''group'', JStr ''external''),
                (''position'', JStr ''before'')],
          JObj [(''pattern'', JStr ''@/**''), (''group'', JStr ''internal'')]]),
      (''pathGroupsExcludedImportTypes'', JArr [JStr ''react'', JStr ''next'']),
      (''alphabetize'', JObj [(''order'', JStr ''asc''), (''caseInsensitive'', JBool True)])]"

definition prettier_options :: jsval where
  "prettier_options = JObj
     [(''semi'', JBool False),
      (''singleQuote'', JBool True),
      (''tabWidth'', JNum 2),
      (''trailingComma'', JStr ''es5''),
      (''printWidth'', JNum 100),
      (''bracketSpacing'', JBool True),
      (''arrowParens'', JStr ''always''),
      (''endOfLine'', JStr ''lf'')]"

definition rules_object :: config_object where
  "rules_object = empty_object\<lparr>
     files := [''**/*.{js,jsx,ts,tsx,mjs}''],
     languageOptions :=
       [(''ecmaVersion'', JStr ''latest''),
        (''sourceType'', JStr ''module''),
        (''parserOptions'', JObj [(''ecmaFeatures'', JObj [(''jsx'', JBool True)])])],
     settings :=
       [(''react'', JObj [(''version'', JStr ''detect'')]),
        (''import/resolver'', JObj
           [(''typescript'', JObj [(''alwaysTryTypes'', JBool True)]),
            (''node'', JObj [(''extensions'',
               JArr [JStr ''.js'', JStr ''.jsx'', JStr ''.ts'', JStr ''.tsx''])])])],
     rules :=
       [(''@typescript-eslint/no-unused-vars'', JArr [JStr ''error'', JObj
           [(''argsIgnorePattern'', JStr ''^_''),
            (''varsIgnorePattern'', JStr ''^_''),
            (''caughtErrorsIgnorePattern'', JStr ''^_'')]]),
        (''@typescript-eslint/no-explicit-any'', JStr ''warn''),
        (''@typescript-eslint/explicit-function-return-type'', JStr ''off''),
        (''@typescript-eslint/explicit-module-boundary-types'', JStr ''off''),
        (''@typescript-eslint/no-empty-interface'', JStr ''off''),
        (''@typescript-eslint/no-non-null-assertion'', JStr ''warn''),
        (''@typescript-eslint/consistent-type-imports'', JArr [JStr ''error'', JObj
           [(''prefer'', JStr ''type-imports''),
            (''fixStyle'', JStr ''inline-type-imports'')]]),
        (''react/react-in-jsx-scope'', JStr ''off''),
        (''react/prop-types'', JStr ''off''),
        (''react/jsx-uses-react'', JStr ''off''),
        (''react/jsx-uses-vars'', JStr ''error''),
        (''react/jsx-no-target-blank'', JStr ''error''),
        (''react/display-name'', JStr ''off''),
        (''react/jsx-sort-props'', JArr [JStr ''warn'', JObj
           [(''callbacksLast'', JBool True),
            (''shorthandFirst'', JBool True),
            (''noSortAlphabetically'', JBool False),
            (''reservedFirst'', JBool True)]]),
        (''react-hooks/rules-of-hooks'', JStr ''error''),
        (''react-hooks/exhaustive-deps'', JStr ''warn''),
        (''@next/next/no-html-link-for-pages'', JStr ''error''),
        (''@next/next/no-img-element'', JStr ''error''),
        (''@next/next/no-sync-scripts'', JStr ''error''),
        (''@next/next/no-head-element'', JStr ''error''),
        (''@next/next/no-unwanted-polyfillio'', JStr ''error''),
        (''@next/next/no-page-custom-font'', JStr ''error''),
        (''@next/next/no-duplicate-head'', JStr ''error''),
        (''import/order'', JArr [JStr ''error'', import_order_options]),
        (''import/no-duplicates'', JStr ''error''),
        (''import/no-unresolved'', JStr ''error''),
        (''import/no-cycle'', JStr ''warn''),
        (''import/newline-after-import'', JStr ''error''),
        (''jsx-a11y/alt-text'', JStr ''error''),
        (''jsx-a11y/anchor-is-valid'', JStr ''error''),
        (''jsx-a11y/aria-props'', JStr ''error''),
        (''jsx-a11y/aria-proptypes'', JStr ''error''),
        (''jsx-a11y/aria-unsupported-elements'', JStr ''error''),
        (''jsx-a11y/role-has-required-aria-props'', JStr ''error''),
        (''jsx-a11y/role-supports-aria-props'', JStr ''error''),
        (''no-console'', JArr [JStr ''warn'',
           JObj [(''allow'', JArr [JStr ''warn'', JStr ''error''])]]),
        (''no-debugger'', JStr ''error''),
        (''no-alert'', JStr ''warn''),
        (''prefer-const'', JStr ''error''),
        (''no-var'', JStr ''error''),
        (''object-shorthand'', JStr ''error''),
        (''no-nested-ternary'', JStr ''warn''),
        (''no-unneeded-ternary'', JStr ''error''),
        (''prefer-template'', JStr ''error''),
        (''template-curly-spacing'', JArr [JStr ''error'', JStr ''never'']),
        (''arrow-body-style'', JArr [JStr ''error'', JStr ''as-needed'']),
        (''prettier/prettier'', JArr [JStr ''error'', prettier_options])]\<rparr>"

definition ignores_object :: config_object where
  "ignores_object = empty_object\<lparr>ignores :=
     [''**/node_modules/**'',
      ''**/.next/**'',
      ''**/out/**'',
      ''**/build/**'',
      ''**/dist/**'',
      ''**/public/**'',
      ''**/.vercel/**'',
      ''**/.turbo/**'',
      ''**/coverage/**'',
      ''**/*.config.js'',
      ''**/*.config.mjs'',
      ''**/*.config.ts'',
      ''**/next-env.d.ts'',
      ''**/*.test.ts'',
      ''**/*.test.tsx'',
      ''**/tests/**'',
      ''**/__tests__/**'']\<rparr>"

text \<open>\<^verbatim>\<open>export default typescript.config(...)\<close>: the arguments in source order.\<close>

definition eslint_config :: "config_arg list" where
  "eslint_config =
     [Shared js_module ''recommended'',
      Spread typescript ''recommended'',
      Object plugins_object,
      Object rules_object,
      Object ignores_object]"

subsection \<open>Reading the lint configuration\<close>

text \<open>
  The rule-set sources composed into the config: the module behind each ready-made
  config and the module behind each entry of a \<open>plugins\<close> map.
\<close>

fun arg_sources :: "config_arg \<Rightarrow> module list" where
  "arg_sources (Shared m c) = [m]"
| "arg_sources (Spread m c) = [m]"
| "arg_sources (Object ob) = map snd (plugins ob)"

definition rule_set_sources :: "config_arg list \<Rightarrow> module list" where
  "rule_set_sources cfg = remdups (concat (map arg_sources cfg))"

text \<open>
  The rules, ignore patterns of the object literals, in array order. A later config
  object overrides an earlier one, so the setting of a rule is its last entry.
\<close>

fun arg_rules :: "config_arg \<Rightarrow> (string \<times> jsval) list" where
  "arg_rules (Object ob) = rules ob"
| "arg_rules _ = []"

fun arg_ignores :: "config_arg \<Rightarrow> string list" where
  "arg_ignores (Object ob) = ignores ob"
| "arg_ignores _ = []"

definition config_rules :: "config_arg list \<Rightarrow> (string \<times> jsval) list" where
  "config_rules cfg = concat (map arg_rules cfg)"

definition config_ignores :: "config_arg list \<Rightarrow> string list" where
  "config_ignores cfg = concat (map arg_ignores cfg)"

definition rule_setting :: "config_arg list \<Rightarrow> string \<Rightarrow> jsval option" where
  "rule_setting cfg name = map_of (rev (config_rules cfg)) name"

text \<open>
  A rule entry is a severity, or an array whose first element is a severity and whose
  remaining elements are the rule's options.
\<close>

fun is_severity :: "jsval \<Rightarrow> bool" where
  "is_severity (JStr s) = (s = ''off'' \<or> s = ''warn'' \<or> s = ''error'')"
| "is_severity _ = False"

fun is_rule_entry :: "jsval \<Rightarrow> bool" where
  "is_rule_entry (JArr (v # opts)) = is_severity v"
| "is_rule_entry v = is_severity v"

section \<open>Regular expressions\<close>

text \<open>
  The keys of \<open>moduleNameMapper\<close> and \<open>transform\<close> and the entries of
  \<open>testPathIgnorePatterns\<close> are sources of JavaScript regular expressions: the test
  runner builds a \<^verbatim>\<open>RegExp\<close> (without flags) from each and tests it against a module
  specifier or a file path. Its glob library turns the patterns of \<open>testMatch\<close> into
  regular expressions as well. This section gives the ECMAScript semantics of the syntax
  these expressions use: literal characters, \<^verbatim>\<open>.\<close>, a negated class of one character,
  \<^verbatim>\<open>^\<close>, \<^verbatim>\<open>$\<close>, escaped syntax characters, alternation, groups (capturing or not),
  lookahead, and the quantifiers \<^verbatim>\<open>*\<close>, \<^verbatim>\<open>+\<close>, \<^verbatim>\<open>?\<close>, \<^verbatim>\<open>{m,n}\<close>, greedy or lazy. A source that
  uses anything else is not parsed (\<open>None\<close>).
\<close>

datatype regex =
    Lit nat
  | Dot
  | NoneOf "nat list"
  | Bol
  | Eol
  | Empty
  | Seq regex regex
  | Alt regex regex
  | Repeat regex nat "nat option" bool
  | Group nat regex
  | NonCap regex
  | Look regex
  | NotLook regex

text \<open>
  \<open>Repeat r min max greedy\<close> is \<open>r\<close> repeated at least \<open>min\<close> and at most \<open>max\<close> times
  (\<open>None\<close>: no upper bound).
\<close>

subsection \<open>Parsing a pattern source\<close>

fun seq_of :: "regex list \<Rightarrow> regex" where
  "seq_of [] = Empty"
| "seq_of [a] = a"
| "seq_of (a # b # bs) = Seq a (seq_of (b # bs))"

fun alt_of :: "regex list \<Rightarrow> regex" where
  "alt_of [] = Empty"
| "alt_of [a] = a"
| "alt_of (a # b # bs) = Alt a (alt_of (b # bs))"

text \<open>
  A frame of the parser: the kind of the group being read (the whole pattern is group
  0), the alternatives already closed and the atoms of the current alternative, both in
  reverse order.
\<close>

datatype gkind = Capturing nat | NonCapturing | Lookahead | NegLookahead

type_synonym frame = "gkind \<times> regex list \<times> regex list"

definition close_frame :: "regex list \<Rightarrow> regex list \<Rightarrow> regex" where
  "close_frame alts cur = alt_of (rev (seq_of (rev cur) # alts))"

fun mk_group :: "gkind \<Rightarrow> regex \<Rightarrow> regex" where
  "mk_group (Capturing n) r = Group n r"
| "mk_group NonCapturing r = NonCap r"
| "mk_group Lookahead r = Look r"
| "mk_group NegLookahead r = NotLook r"

fun quantifiable :: "regex \<Rightarrow> bool" where
  "quantifiable (Repeat r mn mx g) = False"
| "quantifiable Bol = False"
| "quantifiable Eol = False"
| "quantifiable (Look r) = False"
| "quantifiable (NotLook r) = False"
| "quantifiable r = True"

definition syntax_chars :: "char set" where
  "syntax_chars = set ''^$.*+?()[]{}|/'' \<union> {backslash}"

definition is_digit :: "char \<Rightarrow> bool" where
  "is_digit c = (c \<in> set ''0123456789'')"

definition digit_value :: "char \<Rightarrow> nat" where
  "digit_value c = of_char c - of_char (CHR ''0'')"

text \<open>A quantifier applies to the last atom read.\<close>

fun quantify :: "regex list \<Rightarrow> nat \<Rightarrow> nat option \<Rightarrow> regex list option" where
  "quantify [] mn mx = None"
| "quantify (a # as) mn mx =
     (if quantifiable a then Some (Repeat a mn mx True # as) else None)"

fun parse_loop :: "string \<Rightarrow> nat \<Rightarrow> frame \<Rightarrow> frame list \<Rightarrow> regex option" where
  "parse_loop [] n (k, alts, cur) stack =
     (if stack = [] then Some (close_frame alts cur) else None)"
| "parse_loop (c # cs) n (k, alts, cur) stack =
     (if c = CHR ''('' then
        (case cs of
           q # t # cs' \<Rightarrow>
             if q = CHR ''?'' then
               (if t = CHR '':'' then
                  parse_loop cs' n (NonCapturing, [], []) ((k, alts, cur) # stack)
                else if t = CHR ''='' then
                  parse_loop cs' n (Lookahead, [], []) ((k, alts, cur) # stack)
                else if t = CHR ''!'' then
                  parse_loop cs' n (NegLookahead, [], []) ((k, alts, cur) # stack)
                else None)
             else parse_loop cs (Suc n) (Capturing n, [], []) ((k, alts, cur) # stack)
         | _ \<Rightarrow> parse_loop cs (Suc n) (Capturing n, [], []) ((k, alts, cur) # stack))
      else if c = CHR '')'' then
        (case stack of
           [] \<Rightarrow> None
         | (k', alts', cur') # stack' \<Rightarrow>
             parse_loop cs n (k', alts', mk_group k (close_frame alts cur) # cur') stack')
      else if c = CHR ''|'' then parse_loop cs n (k, seq_of (rev cur) # alts, []) stack
      else if c = CHR ''*'' then
        (case quantify cur 0 None of
           None \<Rightarrow> None
         | Some cur' \<Rightarrow> parse_loop cs n (k, alts, cur') stack)
      else if c = CHR ''+'' then
        (case quantify cur 1 None of
           None \<Rightarrow> None
         | Some cur' \<Rightarrow> parse_loop cs n (k, alts, cur') stack)
      else if c = CHR ''?'' then
        (case cur of
           Repeat a mn mx True # as \<Rightarrow>
             parse_loop cs n (k, alts, Repeat a mn mx False # as) stack
         | _ \<Rightarrow>
             (case quantify cur 0 (Some 1) of
                None \<Rightarrow> None
              | Some cur' \<Rightarrow> parse_loop cs n (k, alts, cur') stack))
      else if c = CHR ''{'' then
        (case cs of
           a # m # b # e # cs' \<Rightarrow>
             if is_digit a \<and> m = CHR '','' \<and> is_digit b \<and> e = CHR ''}'' then
               (case quantify cur (digit_value a) (Some (digit_value b)) of
                  None \<Rightarrow> None
                | Some cur' \<Rightarrow> parse_loop cs' n (k, alts, cur') stack)
             else None
         | _ \<Rightarrow> None)
      else if c = CHR ''['' then
        (case cs of
           h # x # e # cs' \<Rightarrow>
             if h = CHR ''^'' \<and> e = CHR '']'' \<and> x \<notin> syntax_chars - {CHR ''/''} then
               parse_loop cs' n (k, alts, NoneOf [of_char x] # cur) stack
             else None
         | _ \<Rightarrow> None)
      else if c = CHR ''.'' then parse_loop cs n (k, alts, Dot # cur) stack
      else if c = CHR ''^'' then parse_loop cs n (k, alts, Bol # cur) stack
      else if c = CHR ''$'' then parse_loop cs n (k, alts, Eol # cur) stack
      else if c = backslash then
        (case cs of
           [] \<Rightarrow> None
         | d # ds \<Rightarrow>
             if d \<in> syntax_chars then parse_loop ds n (k, alts, Lit (of_char d) # cur) stack
             else None)
      else if c \<in> set '']}'' then None
      else parse_loop cs n (k, alts, Lit (of_char c) # cur) stack)"

definition parse_regex :: "string \<Rightarrow> regex option" where
  "parse_regex src = parse_loop src 1 (Capturing 0, [], []) []"

subsection \<open>Matching\<close>

text \<open>
  \<^verbatim>\<open>.\<close> matches every code unit but the line terminators LF, CR, U+2028 and U+2029
  (no \<^verbatim>\<open>s\<close> flag).
\<close>

definition line_terminator :: "nat \<Rightarrow> bool" where
  "line_terminator c = (c = 10 \<or> c = 13 \<or> c = 8232 \<or> c = 8233)"

text \<open>
  A matcher state: the index reached in the input, the input left from there, and the
  captures (most recent first). \<open>run r st\<close> lists the states in which \<open>r\<close> can end when
  started in \<open>st\<close>, in the order in which the backtracking matcher of ECMAScript tries
  them; the first one is the match it reports.
\<close>

type_synonym captures = "(nat \<times> jsstring) list"
type_synonym mstate = "nat \<times> jsstring \<times> captures"

fun rest :: "mstate \<Rightarrow> jsstring" where
  "rest (i, s, cs) = s"

primrec groups_of :: "regex \<Rightarrow> nat list" where
  "groups_of (Lit c) = []"
| "groups_of Dot = []"
| "groups_of (NoneOf ex) = []"
| "groups_of Bol = []"
| "groups_of Eol = []"
| "groups_of Empty = []"
| "groups_of (Seq a b) = groups_of a @ groups_of b"
| "groups_of (Alt a b) = groups_of a @ groups_of b"
| "groups_of (Repeat r mn mx g) = groups_of r"
| "groups_of (Group n r) = n # groups_of r"
| "groups_of (NonCap r) = groups_of r"
| "groups_of (Look r) = groups_of r"
| "groups_of (NotLook r) = groups_of r"

fun clear_captures :: "nat list \<Rightarrow> mstate \<Rightarrow> mstate" where
  "clear_captures gs (i, s, cs) = (i, s, filter (\<lambda>(k, v). k \<notin> set gs) cs)"

text \<open>
  Repetition of a matcher \<open>f\<close> (the \<^verbatim>\<open>RepeatMatcher\<close> of the language definition). With
  \<open>max = 0\<close> nothing more is matched. Otherwise an iteration runs \<open>f\<close>; once the minimum is
  reached, an iteration that consumes no input is rejected. While the minimum is not
  reached the iteration is the only way on; afterwards stopping here is tried after the
  iteration (greedy) or before it (lazy). Every iteration lowers the minimum or consumes
  input, so at most \<open>min\<close> plus the number of code units left can follow one another; the
  first argument after \<open>greedy\<close> counts them down from that bound.
\<close>

primrec repeat_run ::
  "(mstate \<Rightarrow> mstate list) \<Rightarrow> bool \<Rightarrow> nat \<Rightarrow> nat \<Rightarrow> nat option \<Rightarrow> mstate \<Rightarrow> mstate list"
where
  "repeat_run f greedy 0 = (\<lambda>mn mx st. [st])"
| "repeat_run f greedy (Suc n) = (\<lambda>mn mx st.
     if mx = Some 0 then [st]
     else
       let iter = concat (map
             (\<lambda>st'. if mn = 0 \<and> length (rest st) \<le> length (rest st') then []
                    else repeat_run f greedy n (mn - 1) (map_option (\<lambda>m. m - 1) mx) st')
             (f st))
       in if 0 < mn then iter else if greedy then iter @ [st] else st # iter)"

text \<open>
  The captures of the groups inside a repeated atom are cleared at the start of each
  iteration. A lookahead does not consume input and is not backtracked into: a positive
  one keeps the captures of its first match.
\<close>

primrec run :: "regex \<Rightarrow> mstate \<Rightarrow> mstate list" where
  "run (Lit c) = (\<lambda>(i, s, cs).
     case s of [] \<Rightarrow> [] | x # xs \<Rightarrow> if x = c then [(Suc i, xs, cs)] else [])"
| "run Dot = (\<lambda>(i, s, cs).
     case s of [] \<Rightarrow> [] | x # xs \<Rightarrow> if line_terminator x then [] else [(Suc i, xs, cs)])"
| "run (NoneOf ex) = (\<lambda>(i, s, cs).
     case s of [] \<Rightarrow> [] | x # xs \<Rightarrow> if x \<in> set ex then [] else [(Suc i, xs, cs)])"
| "run Bol = (\<lambda>(i, s, cs). if i = 0 then [(i, s, cs)] else [])"
| "run Eol = (\<lambda>(i, s, cs). if s = [] then [(i, s, cs)] else [])"
| "run Empty = (\<lambda>st. [st])"
| "run (Seq a b) = (\<lambda>st. concat (map (run b) (run a st)))"
| "run (Alt a b) = (\<lambda>st. run a st @ run b st)"
| "run (Repeat r mn mx greedy) = (\<lambda>st.
     repeat_run (run r \<circ> clear_captures (groups_of r)) greedy
       (mn + length (rest st)) mn mx st)"
| "run (Group n r) = (\<lambda>(i, s, cs).
     map (\<lambda>(i', s', cs'). (i', s', (n, take (i' - i) s) # cs')) (run r (i, s, cs)))"
| "run (NonCap r) = run r"
| "run (Look r) = (\<lambda>(i, s, cs).
     case run r (i, s, cs) of [] \<Rightarrow> [] | (i', s', cs') # sts \<Rightarrow> [(i, s, cs')])"
| "run (NotLook r) = (\<lambda>st. if run r st = [] then [st] else [])"

text \<open>One iteration of a repeated \<^verbatim>\<open>.\<close>, as \<open>run\<close> passes it to \<open>repeat_run\<close>.\<close>

definition dot_step :: "mstate \<Rightarrow> mstate list" where
  "dot_step = run Dot \<circ> clear_captures (groups_of Dot)"

text \<open>
  \<^verbatim>\<open>RegExp.prototype.exec\<close> without flags: try the start indices \<open>0, 1, ...\<close> in turn,
  up to the length of the input; group 0 is the matched text.
\<close>

fun search :: "regex \<Rightarrow> nat \<Rightarrow> jsstring \<Rightarrow> mstate option" where
  "search r i [] =
     (case run (Group 0 r) (i, [], []) of
        st # sts \<Rightarrow> Some st
      | [] \<Rightarrow> None)"
| "search r i (x # xs) =
     (case run (Group 0 r) (i, x # xs, []) of
        st # sts \<Rightarrow> Some st
      | [] \<Rightarrow> search r (Suc i) xs)"

text \<open>
  The result of matching a pattern source against a subject: \<open>None\<close> when the source
  is outside the syntax above, \<open>Some None\<close> when there is no match, and the captures of
  the first match otherwise.
\<close>

definition regex_exec :: "string \<Rightarrow> jsstring \<Rightarrow> captures option option" where
  "regex_exec src s =
     (case parse_regex src of
        None \<Rightarrow> None
      | Some r \<Rightarrow> Some (map_option (\<lambda>(i, s', cs). cs) (search r 0 s)))"

definition regex_test :: "string \<Rightarrow> jsstring \<Rightarrow> bool option" where
  "regex_test src s = map_option (\<lambda>m. m \<noteq> None) (regex_exec src s)"


subsection \<open>Applying the configuration's regular expressions\<close>






section \<open>Glob patterns\<close>

text \<open>
  \<open>testMatch\<close> of the test runner and \<open>ignores\<close> of the linter are lists of glob
  patterns. The tools match them against file paths with their glob libraries (picomatch
  in the test runner, minimatch in the linter), both with the option \<^verbatim>\<open>dot\<close>, which lets
  patterns match dot files. This section gives the semantics of the glob syntax the
  configuration uses: literal characters, \<^verbatim>\<open>*\<close> inside a path segment, \<^verbatim>\<open>**\<close> as a whole
  segment, and brace lists \<^verbatim>\<open>{a,b}\<close> without nesting. A pattern that uses anything else is
  not interpreted (\<open>None\<close>).
\<close>

subsection \<open>The matcher of the test runner\<close>

text \<open>
  picomatch compiles a glob to the source of a regular expression and tests the path
  against it. The pieces of the source, under the names the library gives them (POSIX
  paths, option \<^verbatim>\<open>dot\<close>):
\<close>

definition SLASH_LITERAL :: string where
  "SLASH_LITERAL = [backslash, CHR ''/'']"

definition DOT_LITERAL :: string where
  "DOT_LITERAL = [backslash, CHR ''.'']"

definition ONE_CHAR :: string where
  "ONE_CHAR = ''(?=.)''"

definition QMARK :: string where
  "QMARK = ''[^/]''"

definition STAR :: string where
  "STAR = QMARK @ ''*?''"

definition END_ANCHOR :: string where
  "END_ANCHOR = ''(?:'' @ SLASH_LITERAL @ ''|$)''"

definition START_ANCHOR :: string where
  "START_ANCHOR = ''(?:^|'' @ SLASH_LITERAL @ '')''"

definition DOTS_SLASH :: string where
  "DOTS_SLASH = DOT_LITERAL @ ''{1,2}'' @ END_ANCHOR"

definition NO_DOTS_SLASH :: string where
  "NO_DOTS_SLASH = ''(?!'' @ DOTS_SLASH @ '')''"

definition globstar :: string where
  "globstar = ''(?:(?:(?!'' @ START_ANCHOR @ DOTS_SLASH @ '').)*?)''"

text \<open>What \<^verbatim>\<open>/**/\<close> compiles to when the pattern goes on after it.\<close>

definition globstar_group :: string where
  "globstar_group = ''(?:'' @ SLASH_LITERAL @ NO_DOTS_SLASH @ globstar @ SLASH_LITERAL @ ''|'' @
     SLASH_LITERAL @ ''|$)''"

text \<open>
  The kind of the token before the current character, and the characters that are not
  plain text in a glob (the last two are the double quote and the null character).
\<close>

datatype prev = Bos | Text | Slash | StarTok | Brace | Comma

definition glob_special :: "char set" where
  "glob_special = set ''@![].,$*+?^{}()|/'' \<union> {backslash, CHR 0x22, CHR 0x00}"

text \<open>
  \<open>scan glob prev br\<close> is the output of the library's parser for the rest \<open>glob\<close> of a
  pattern; \<open>br\<close> tells whether a brace list is open and whether a comma has been read in
  it.
  \<^item> \<^verbatim>\<open>/**/\<close> after a first token becomes a group: a separator, any text in which no
    segment is \<^verbatim>\<open>.\<close> or \<^verbatim>\<open>..\<close>, and a separator; or one separator; or, when the pattern goes
    on, the end of the input.
  \<^item> \<^verbatim>\<open>*\<close> is a lazy run of characters other than the separator; at the start of a segment
    it is guarded: the segment is not \<^verbatim>\<open>.\<close> or \<^verbatim>\<open>..\<close> and has a first character.
  \<^item> \<^verbatim>\<open>{a,b}\<close> becomes the capturing group \<^verbatim>\<open>(a|b)\<close>.
  \<^item> A pattern that ends in \<^verbatim>\<open>*\<close> may be followed by one separator.
  \<^item> Plain text is copied.
\<close>

fun scan :: "string \<Rightarrow> prev \<Rightarrow> bool option \<Rightarrow> string option" where
  "scan [] prev br =
     (if br \<noteq> None then None
      else if prev = StarTok then Some (SLASH_LITERAL @ ''?'')
      else Some [])"
| "scan (c # cs) prev br =
     (if c = CHR ''/'' then
        (if br \<noteq> None then None
         else case cs of
           a # b # d # cs' \<Rightarrow>
             if a = CHR ''*'' \<and> b = CHR ''*'' then
               (if d = CHR ''/'' \<and> prev \<noteq> Bos \<and> take 2 cs' \<noteq> ''**'' then
                  map_option
                    (\<lambda>out. (if cs' = [] then
                              ''(?:'' @ SLASH_LITERAL @ NO_DOTS_SLASH @ globstar @
                              SLASH_LITERAL @ ''|'' @ SLASH_LITERAL @ '')''
                            else globstar_group) @ out)
                    (scan cs' Slash None)
                else None)
             else map_option (\<lambda>out. SLASH_LITERAL @ out) (scan cs Slash None)
         | _ \<Rightarrow> map_option (\<lambda>out. SLASH_LITERAL @ out) (scan cs Slash None))
      else if c = CHR ''*'' then
        (if br \<noteq> None \<or> take 1 cs = ''*'' then None
         else if prev = Bos \<or> prev = Slash then
           map_option (\<lambda>out. NO_DOTS_SLASH @ ONE_CHAR @ STAR @ out) (scan cs StarTok None)
         else map_option (\<lambda>out. STAR @ out) (scan cs StarTok None))
      else if c = CHR ''.'' then
        (if br \<noteq> None \<or> prev = Bos \<or> prev = Slash then None
         else map_option (\<lambda>out. DOT_LITERAL @ out) (scan cs Text None))
      else if c = CHR ''{'' then
        (if br \<noteq> None then None
         else map_option (\<lambda>out. ''('' @ out) (scan cs Brace (Some False)))
      else if c = CHR '','' then
        (if br = None then None
         else map_option (\<lambda>out. ''|'' @ out) (scan cs Comma (Some True)))
      else if c = CHR ''}'' then
        (if br = Some True then map_option (\<lambda>out. '')'' @ out) (scan cs Brace None)
         else None)
      else if c \<in> glob_special then None
      else map_option (\<lambda>out. c # out) (scan cs Text br))"

text \<open>\<^verbatim>\<open>makeRe\<close>: the whole path must match.\<close>

definition picomatch_source :: "string \<Rightarrow> string option" where
  "picomatch_source glob = map_option (\<lambda>out. ''^(?:'' @ out @ '')$'') (scan glob Bos None)"

text \<open>
  \<^verbatim>\<open>test\<close>: the empty path never matches, a path equal to the glob always does, and any
  other path is tested against the regular expression.
\<close>

definition picomatch :: "string \<Rightarrow> jsstring \<Rightarrow> bool option" where
  "picomatch glob input =
     (case picomatch_source glob of
        None \<Rightarrow> None
      | Some src \<Rightarrow>
          if input = [] then Some False
          else if input = js glob then Some True
          else regex_test src input)"

subsection \<open>The matcher of the linter\<close>

text \<open>
  minimatch expands the brace lists of a pattern, splits each expansion and the path at
  runs of separators, and matches segment by segment.

  \<open>expand_loop\<close> reads the pattern from left to right; \<open>acc\<close> holds the expansions of
  what has been read, and inside a brace list the alternatives read so far and the one
  being read.
\<close>

fun expand_loop ::
  "string \<Rightarrow> string list \<Rightarrow> (string list \<times> string) option \<Rightarrow> string list option" where
  "expand_loop [] acc None = Some acc"
| "expand_loop [] acc (Some b) = None"
| "expand_loop (c # cs) acc None =
     (if c = CHR ''{'' then expand_loop cs acc (Some ([], []))
      else if c = CHR ''}'' then None
      else expand_loop cs (map (\<lambda>p. p @ [c]) acc) None)"
| "expand_loop (c # cs) acc (Some (alts, cur)) =
     (if c = CHR ''{'' then None
      else if c = CHR '','' then expand_loop cs acc (Some (alts @ [cur], []))
      else if c = CHR ''}'' then
        (if alts = [] then None
         else expand_loop cs (concat (map (\<lambda>p. map (\<lambda>a. p @ a) (alts @ [cur])) acc)) None)
      else expand_loop cs acc (Some (alts, cur @ [c])))"

definition brace_expand :: "string \<Rightarrow> string list option" where
  "brace_expand pat = expand_loop pat [[]] None"

fun slash_split :: "'a \<Rightarrow> 'a list \<Rightarrow> 'a list list" where
  "slash_split sep [] = [[]]"
| "slash_split sep (c # cs) =
     (if c = sep then
        (if take 1 cs = [sep] then slash_split sep cs else [] # slash_split sep cs)
      else (case slash_split sep cs of s # ss \<Rightarrow> (c # s) # ss | [] \<Rightarrow> [[c]]))"

definition slash :: nat where
  "slash = 47"

text \<open>
  A segment of a pattern is \<^verbatim>\<open>**\<close>, a segment with \<^verbatim>\<open>*\<close> in it (tokens), or plain text.
\<close>

datatype tok = Any | Ch nat

datatype part = Globstar | Magic "tok list" | Literal jsstring

definition parse_part :: "string \<Rightarrow> part" where
  "parse_part s =
     (if s = ''**'' then Globstar
      else if CHR ''*'' \<in> set s
      then Magic (map (\<lambda>c. if c = CHR ''*'' then Any else Ch (of_char c)) s)
      else Literal (js s))"

definition pattern_parts :: "string \<Rightarrow> part list" where
  "pattern_parts pat = map parse_part (slash_split (CHR ''/'') pat)"

text \<open>\<^verbatim>\<open>*\<close> matches any run of code units other than the separator.\<close>

fun seg_match :: "tok list \<Rightarrow> jsstring \<Rightarrow> bool" where
  "seg_match [] s = (s = [])"
| "seg_match (Ch c # ts) [] = False"
| "seg_match (Ch c # ts) (x # xs) = (x = c \<and> seg_match ts xs)"
| "seg_match (Any # ts) [] = seg_match ts []"
| "seg_match (Any # ts) (x # xs) =
     (seg_match ts (x # xs) \<or> (x \<noteq> slash \<and> seg_match (Any # ts) xs))"

definition dot_segment :: "jsstring \<Rightarrow> bool" where
  "dot_segment s = (s = js ''.'' \<or> s = js ''..'')"

text \<open>
  A segment with \<^verbatim>\<open>*\<close> matches a path segment that is not empty and does not begin with a
  line terminator; when the pattern segment begins with \<^verbatim>\<open>*\<close>, the path segment is
  neither \<^verbatim>\<open>.\<close> nor \<^verbatim>\<open>..\<close>.
\<close>

fun magic_hit :: "tok list \<Rightarrow> jsstring \<Rightarrow> bool" where
  "magic_hit ts [] = False"
| "magic_hit ts (x # xs) =
     (\<not> line_terminator x \<and>
      \<not> (take 1 ts = [Any] \<and> dot_segment (x # xs)) \<and>
      seg_match ts (x # xs))"

text \<open>
  Matching the segments of a path against the segments of a pattern. \<^verbatim>\<open>**\<close> in last
  position takes all the segments left, of which there is at least one; elsewhere it
  takes any number of segments, none at all included. It never takes a segment \<^verbatim>\<open>.\<close> or
  \<^verbatim>\<open>..\<close>. A path may end in a separator after the last pattern segment.
\<close>

fun match_one :: "jsstring list \<Rightarrow> part list \<Rightarrow> bool" where
  "match_one [] [] = True"
| "match_one [] (p # ps) = False"
| "match_one (f # fs) [] = (fs = [] \<and> f = [])"
| "match_one (f # fs) [Globstar] = list_all (\<lambda>g. \<not> dot_segment g) (f # fs)"
| "match_one (f # fs) (Globstar # p # ps) =
     (match_one (f # fs) (p # ps) \<or>
      (\<not> dot_segment f \<and> match_one fs (Globstar # p # ps)))"
| "match_one (f # fs) (Literal p # ps) = (f = p \<and> match_one fs ps)"
| "match_one (f # fs) (Magic ts # ps) = (magic_hit ts f \<and> match_one fs ps)"

definition glob_syntax_ok :: "string \<Rightarrow> bool" where
  "glob_syntax_ok pat =
     (pat \<noteq> [] \<and> list_all (\<lambda>c. c \<notin> set ''?[]!()+@#'' \<and> c \<noteq> backslash) pat)"

definition minimatch :: "string \<Rightarrow> jsstring \<Rightarrow> bool option" where
  "minimatch pat path =
     (if glob_syntax_ok pat
      then map_option (list_ex (\<lambda>p. match_one (slash_split slash path) (pattern_parts p)))
             (brace_expand pat)
      else None)"




section \<open>Properties of the configuration objects\<close>

lemmas module_defs =
  js_module_def typescript_def react_def reactHooks_def jsxA11y_def importPlugin_def
  next_plugin_def prettier_def

lemmas object_defs =
  empty_object_def plugins_object_def rules_object_def ignores_object_def

text \<open>
  C3. The ignore list of the test-runner configuration contains the directory of the
  standalone scripts, \<^verbatim>\<open><rootDir>/tests/\<close>.
\<close>

theorem C3_ignore_list_has_tests_dir:
  "''<rootDir>/tests/'' \<in> set (testPathIgnorePatterns customJestConfig)"
  by (simp add: customJestConfig_def)

text \<open>
  C6. The test environment is \<^verbatim>\<open>jest-environment-jsdom\<close> and the setup files are
  exactly the one-element list \<^verbatim>\<open>['<rootDir>/jest.setup.ts']\<close>.
\<close>

theorem C6_environment_and_setup_file:
  "testEnvironment customJestConfig = ''jest-environment-jsdom'' \<and>
   setupFilesAfterEnv customJestConfig = [''<rootDir>/jest.setup.ts'']"
  by (simp add: customJestConfig_def)

text \<open>
  C4. In the rules of the lint configuration, \<^verbatim>\<open>react/react-in-jsx-scope\<close> is set to
  the severity \<^verbatim>\<open>off\<close>.
\<close>

theorem C4_react_in_jsx_scope_off:
  "rule_setting eslint_config ''react/react-in-jsx-scope'' = Some (JStr ''off'')"
  by (simp add: rule_setting_def config_rules_def eslint_config_def object_defs)

text \<open>
  C1 (as stated). The rule-set sources composed into the lint configuration, the base
  recommended configs and the entries of the plugins map, number twelve. This fails: the
  count is not twelve.
\<close>

theorem C1_not_twelve_sources:
  "length (rule_set_sources eslint_config) \<noteq> 12"
  by (simp add: rule_set_sources_def eslint_config_def object_defs module_defs)

text \<open>
  C1 (amended). The lint configuration composes eight distinct rule-set sources: the two
  base recommended configs (of \<^verbatim>\<open>@eslint/js\<close> and \<^verbatim>\<open>typescript-eslint\<close>) and the six entries
  of the plugins map.
\<close>

theorem C1_eight_sources:
  "rule_set_sources eslint_config =
     [js_module, typescript, react, reactHooks, jsxA11y, importPlugin, next_plugin, prettier]
   \<and> length (rule_set_sources eslint_config) = 8"
  by (simp add: rule_set_sources_def eslint_config_def object_defs module_defs)

text \<open>
  C7. Every entry of the rules of the lint configuration is a severity (\<^verbatim>\<open>off\<close>,
  \<^verbatim>\<open>warn\<close> or \<^verbatim>\<open>error\<close>) or an array whose first element is a severity, followed by
  options.
\<close>

theorem C7_every_rule_has_severity:
  "\<forall>(name, v) \<in> set (config_rules eslint_config). is_rule_entry v"
  by (simp add: config_rules_def eslint_config_def object_defs)

theorem C7_every_rule_has_severity_witness:
  "(''no-console'', JArr [JStr ''warn'', JObj [(''allow'', JArr [JStr ''warn'', JStr ''error''])]])
     \<in> set (config_rules eslint_config) \<and>
   is_rule_entry (JArr [JStr ''warn'', JObj [(''allow'', JArr [JStr ''warn'', JStr ''error''])]])"
proof -
  have m: "(''no-console'', JArr [JStr ''warn'', JObj [(''allow'', JArr [JStr ''warn'', JStr ''error''])]])
     \<in> set (config_rules eslint_config)"
    by (simp add: config_rules_def eslint_config_def object_defs)
  from C7_every_rule_has_severity m show ?thesis by blast
qed

section \<open>Properties of the regular expressions\<close>

subsection \<open>The parsed patterns\<close>

lemmas parse_defs =
  parse_regex_def close_frame_def backslash_def syntax_chars_def is_digit_def digit_value_def


lemma parse_transform_key:
  "parse_regex (''^.+'' @ backslash # ''.(ts|tsx)$'') =
     Some (Seq Bol (Seq (Repeat Dot 1 None True) (Seq (Lit 46)
       (Seq (Group 1 (Alt (Seq (Lit 116) (Lit 115)) (Seq (Lit 116) (Seq (Lit 115) (Lit 120)))))
         Eol))))"
  by (simp add: parse_defs)




subsection \<open>Repetition\<close>

text \<open>
  A matcher never gives back input, and the counter of \<open>repeat_run\<close> is a bound, not a
  budget: any counter that is at least the minimum plus the number of code units left
  gives the same result.
\<close>

lemma repeat_run_rest_le:
  assumes f: "\<And>st st'. st' \<in> set (f st) \<Longrightarrow> length (rest st') \<le> length (rest st)"
  shows "st' \<in> set (repeat_run f g n mn mx st) \<Longrightarrow> length (rest st') \<le> length (rest st)"
proof (induction n arbitrary: mn mx st)
  case 0
  then show ?case by simp
next
  case (Suc n)
  show ?case
  proof (cases "mx = Some 0")
    case True
    with Suc.prems show ?thesis by simp
  next
    case False
    let ?iter = "concat (map
             (\<lambda>st'. if mn = 0 \<and> length (rest st) \<le> length (rest st') then []
                    else repeat_run f g n (mn - 1) (map_option (\<lambda>m. m - 1) mx) st')
             (f st))"
    have iter: "length (rest st') \<le> length (rest st)" if "st' \<in> set ?iter"
    proof -
      from that obtain y where y: "y \<in> set (f st)"
        "st' \<in> set (repeat_run f g n (mn - 1) (map_option (\<lambda>m. m - 1) mx) y)"
        by (auto split: if_splits)
      from Suc.IH[OF y(2)] f[OF y(1)] show ?thesis by simp
    qed
    from Suc.prems False have "st' \<in> set ?iter \<or> st' = st"
      by (auto simp: Let_def split: if_splits)
    with iter show ?thesis by auto
  qed
qed

lemma run_rest_le: "st' \<in> set (run r st) \<Longrightarrow> length (rest st') \<le> length (rest st)"
proof (induction r arbitrary: st st')
  case (Seq a b)
  then obtain y where "y \<in> set (run a st)" "st' \<in> set (run b y)" by auto
  with Seq.IH show ?case by (meson le_trans)
next
  case (Repeat r mn mx g)
  have "\<And>u u'. u' \<in> set ((run r \<circ> clear_captures (groups_of r)) u) \<Longrightarrow>
          length (rest u') \<le> length (rest u)"
  proof -
    fix u u' :: mstate
    assume a: "u' \<in> set ((run r \<circ> clear_captures (groups_of r)) u)"
    obtain i s cs where u: "u = (i, s, cs)" by (cases u)
    from a Repeat.IH[of u' "clear_captures (groups_of r) u"] show
      "length (rest u') \<le> length (rest u)" by (simp add: u)
  qed
  from repeat_run_rest_le[of "run r \<circ> clear_captures (groups_of r)", OF this] Repeat.prems
  show ?case by simp
next
  case (Group n r)
  then show ?case by (cases st) (auto split: prod.splits)
next
  case (Look r)
  then show ?case by (cases st) (auto split: list.splits prod.splits)
qed (auto split: list.splits if_splits prod.splits)

lemma repeat_run_more_fuel:
  assumes f: "\<And>st st'. st' \<in> set (f st) \<Longrightarrow> length (rest st') \<le> length (rest st)"
  shows "mn + length (rest st) \<le> n \<Longrightarrow> mn + length (rest st) \<le> m \<Longrightarrow>
         repeat_run f g n mn mx st = repeat_run f g m mn mx st"
proof (induction n arbitrary: m mn mx st)
  case 0
  then show ?case by (cases m) (auto simp: Let_def intro!: arg_cong[where f=concat])
next
  case (Suc n)
  show ?case
  proof (cases m)
    case 0
    with Suc.prems show ?thesis by (auto simp: Let_def intro!: arg_cong[where f=concat])
  next
    case (Suc m')
    have "repeat_run f g n (mn - 1) mx' y = repeat_run f g m' (mn - 1) mx' y"
      if "y \<in> set (f st)" "\<not> (mn = 0 \<and> length (rest st) \<le> length (rest y))" for y mx'
    proof (rule Suc.IH)
      from f[OF that(1)] that(2) Suc.prems(1)
      show "mn - 1 + length (rest y) \<le> n" by (cases "mn = 0") auto
      from f[OF that(1)] that(2) Suc.prems(2) \<open>m = Suc m'\<close>
      show "mn - 1 + length (rest y) \<le> m'" by (cases "mn = 0") auto
    qed
    then have "map (\<lambda>st'. if mn = 0 \<and> length (rest st) \<le> length (rest st') then []
                    else repeat_run f g n (mn - 1) (map_option (\<lambda>m. m - 1) mx) st') (f st) =
               map (\<lambda>st'. if mn = 0 \<and> length (rest st) \<le> length (rest st') then []
                    else repeat_run f g m' (mn - 1) (map_option (\<lambda>m. m - 1) mx) st') (f st)"
      by (intro map_cong) auto
    then show ?thesis by (simp only: \<open>m = Suc m'\<close> repeat_run.simps)
  qed
qed

lemma run_Repeat_fuel:
  assumes "mn + length (rest st) \<le> n"
  shows "run (Repeat r mn mx g) st =
           repeat_run (run r \<circ> clear_captures (groups_of r)) g n mn mx st"
proof -
  have "\<And>u u'. u' \<in> set ((run r \<circ> clear_captures (groups_of r)) u) \<Longrightarrow>
          length (rest u') \<le> length (rest u)"
  proof -
    fix u u' :: mstate
    assume a: "u' \<in> set ((run r \<circ> clear_captures (groups_of r)) u)"
    obtain i s cs where u: "u = (i, s, cs)" by (cases u)
    from a run_rest_le[of u' r "clear_captures (groups_of r) u"] show
      "length (rest u') \<le> length (rest u)" by (simp add: u)
  qed
  from repeat_run_more_fuel[of "run r \<circ> clear_captures (groups_of r)", OF this _ assms]
  show ?thesis by simp
qed

lemma dot_step_Nil [simp]: "dot_step (i, [], cs) = []"
  by (simp add: dot_step_def)

lemma dot_step_Cons [simp]:
  "dot_step (i, x # xs, cs) = (if line_terminator x then [] else [(Suc i, xs, cs)])"
  by (simp add: dot_step_def)




subsection \<open>Composite patterns\<close>












subsection \<open>The transform key\<close>



text \<open>A line terminator in the path keeps the key from matching.\<close>

lemma transform_key_line_terminator:
  "regex_test (''^.+'' @ backslash # ''.(ts|tsx)$'') (js ''a'' @ [10] @ js ''b.ts'') = Some False"
  unfolding regex_test_def regex_exec_def parse_transform_key
  by (simp add: js_def line_terminator_def)




subsection \<open>The alias key of the module-name mapping\<close>









section \<open>Properties of the glob patterns\<close>

subsection \<open>The patterns of \<open>testMatch\<close>\<close>

text \<open>The regular expressions the two patterns compile to.\<close>

lemmas picomatch_defs =
  SLASH_LITERAL_def DOT_LITERAL_def ONE_CHAR_def QMARK_def STAR_def END_ANCHOR_def
  START_ANCHOR_def DOTS_SLASH_def NO_DOTS_SLASH_def globstar_def

lemma source_testMatch_0:
  "picomatch_source ''<rootDir>/src/**/__tests__/**/*.{js,jsx,ts,tsx}'' =
     Some (''^(?:<rootDir>'' @ SLASH_LITERAL @ ''src'' @ globstar_group @ ''__tests__'' @
           globstar_group @ NO_DOTS_SLASH @ ONE_CHAR @ STAR @ DOT_LITERAL @
           ''(js|jsx|ts|tsx))$'')"
  by (simp add: picomatch_source_def globstar_group_def glob_special_def backslash_def
        picomatch_defs)

lemma source_testMatch_1:
  "picomatch_source ''<rootDir>/src/**/*.{spec,test}.{js,jsx,ts,tsx}'' =
     Some (''^(?:<rootDir>'' @ SLASH_LITERAL @ ''src'' @ globstar_group @
           NO_DOTS_SLASH @ ONE_CHAR @ STAR @ DOT_LITERAL @ ''(spec|test)'' @ DOT_LITERAL @
           ''(js|jsx|ts|tsx))$'')"
  by (simp add: picomatch_source_def globstar_group_def glob_special_def backslash_def
        picomatch_defs)

lemma shape_testMatch_1:
  "\<exists>A T. parse_regex (the (picomatch_source ''<rootDir>/src/**/*.{spec,test}.{js,jsx,ts,tsx}'')) =
      Some (Seq Bol (Seq (NonCap (seq_of (map Lit (js ''<rootDir>/src'') @
        [NonCap (Alt (Seq (Lit 47) A) (Alt (Lit 47) Eol)), T]))) Eol)) \<and>
      (\<forall>i cs. run T (i, [], cs) = [])"
  unfolding source_testMatch_1 option.sel
  by (simp add: globstar_group_def picomatch_defs parse_defs js_def)

lemma shape_testMatch_0:
  "\<exists>A T. parse_regex (the (picomatch_source ''<rootDir>/src/**/__tests__/**/*.{js,jsx,ts,tsx}'')) =
      Some (Seq Bol (Seq (NonCap (seq_of (map Lit (js ''<rootDir>/src'') @
        [NonCap (Alt (Seq (Lit 47) A) (Alt (Lit 47) Eol)), T]))) Eol)) \<and>
      (\<forall>i cs. run T (i, [], cs) = [])"
  unfolding source_testMatch_0 option.sel
  by (simp add: globstar_group_def picomatch_defs parse_defs js_def)

text \<open>Both patterns are within the glob syntax and the regular-expression syntax above.\<close>

lemma testMatch_interpreted:
  assumes "pat \<in> set (testMatch customJestConfig)"
  shows "picomatch pat p \<noteq> None"
proof -
  from assms consider
      "pat = ''<rootDir>/src/**/__tests__/**/*.{js,jsx,ts,tsx}''"
    | "pat = ''<rootDir>/src/**/*.{spec,test}.{js,jsx,ts,tsx}''"
    by (auto simp: customJestConfig_def)
  then show ?thesis
  proof cases
    case 1
    from shape_testMatch_0 obtain r where
      "parse_regex (the (picomatch_source pat)) = Some r"
      unfolding 1 by blast
    then show ?thesis
      unfolding 1 picomatch_def source_testMatch_0 regex_test_def regex_exec_def
      by auto
  next
    case 2
    from shape_testMatch_1 obtain r where
      "parse_regex (the (picomatch_source pat)) = Some r"
      unfolding 2 by blast
    then show ?thesis
      unfolding 2 picomatch_def source_testMatch_1 regex_test_def regex_exec_def
      by auto
  qed
qed









subsection \<open>Included and ignored test paths\<close>





subsection \<open>The patterns of \<open>ignores\<close>\<close>










text \<open>Every pattern of \<open>ignores\<close> is within the glob syntax above.\<close>

lemma ignores_interpreted:
  assumes "pat \<in> set (config_ignores eslint_config)"
  shows "minimatch pat p \<noteq> None"
  using assms
  by (auto simp: config_ignores_def eslint_config_def object_defs minimatch_def
        glob_syntax_ok_def brace_expand_def backslash_def)


text \<open>
  A file name that begins with a line terminator is not matched by the patterns for the
  extensions either.
\<close>

lemma line_terminator_name_not_ignored:
  "\<not> (\<exists>pat\<in>set (config_ignores eslint_config).
          minimatch pat ([10] @ js ''x.config.ts'') = Some True)"
  by (simp add: config_ignores_def eslint_config_def object_defs
        minimatch_def glob_syntax_ok_def backslash_def brace_expand_def
        pattern_parts_def parse_part_def js_def slash_def dot_segment_def line_terminator_def)



end
